theory Spec2Isabelle
  imports Main "HOL-Library.Sublist" "HOL-Library.Word"
begin

section \<open>Python values used by app.py\<close>

text \<open>
  A raised Python exception is a value: its class name and the message that \<open>str(e)\<close>
  gives. A call that can raise returns \<open>exn + 'a\<close>, with \<open>Inl\<close> for the exception.
  The values stand for instances of \<open>Exception\<close>, which is what the libraries raise and
  what \<open>except Exception\<close> catches; \<open>KeyboardInterrupt\<close> and \<open>SystemExit\<close> are not
  modelled.
\<close>

datatype exn = Exn (exn_class: string) (exn_msg: string)

definition str_exn :: "exn \<Rightarrow> string" where
  "str_exn e = exn_msg e"

definition apostrophe :: string where
  "apostrophe = [CHR 0x27]"

definition newline :: string where
  "newline = [CHR 0x0A]"

subsection \<open>The model response, as \<open>process_gemini_response\<close> reads it\<close>

text \<open>
  Only the attributes the function touches are kept. An attribute that may be \<open>None\<close>
  is an option; a part without a \<open>text\<close> attribute (\<open>hasattr(part, 'text')\<close> false)
  has \<open>part_text = None\<close>.
\<close>

record safety_rating =
  category :: string
  probability :: string

record prompt_feedback_t =
  safety_ratings :: "safety_rating list"

record part =
  part_text :: "string option"

record content_t =
  parts :: "part list option"

record candidate =
  content :: "content_t option"

record response =
  candidates :: "candidate list option"
  prompt_feedback :: "prompt_feedback_t option"

subsection \<open>Python primitives that can raise\<close>

text \<open>\<open>not xs\<close> for a value that is \<open>None\<close> or a list.\<close>

definition py_not :: "'a list option \<Rightarrow> bool" where
  "py_not v = (case v of None \<Rightarrow> True | Some xs \<Rightarrow> xs = [])"

text \<open>\<open>xs[0]\<close>: \<open>None\<close> is not subscriptable, an empty list has no index 0.\<close>

definition index0 :: "'a list option \<Rightarrow> exn + 'a" where
  "index0 v =
     (case v of
        None \<Rightarrow> Inl (Exn ''TypeError''
                 (apostrophe @ ''NoneType'' @ apostrophe @ '' object is not subscriptable''))
      | Some [] \<Rightarrow> Inl (Exn ''IndexError'' ''list index out of range'')
      | Some (x # _) \<Rightarrow> Inr x)"

text \<open>\<open>c.parts\<close> where \<open>c\<close> may be \<open>None\<close>.\<close>

definition getattr_parts :: "content_t option \<Rightarrow> exn + part list option" where
  "getattr_parts c =
     (case c of
        None \<Rightarrow> Inl (Exn ''AttributeError''
                 (apostrophe @ ''NoneType'' @ apostrophe @ '' object has no attribute ''
                  @ apostrophe @ ''parts'' @ apostrophe))
      | Some ct \<Rightarrow> Inr (parts ct))"

text \<open>\<open>hasattr(part, 'text')\<close> and \<open>part.text\<close>.\<close>

definition hasattr_text :: "part \<Rightarrow> bool" where
  "hasattr_text p = (part_text p \<noteq> None)"

definition getattr_text :: "part \<Rightarrow> exn + string" where
  "getattr_text p =
     (case part_text p of
        None \<Rightarrow> Inl (Exn ''AttributeError''
                 (apostrophe @ ''Part'' @ apostrophe @ '' object has no attribute ''
                  @ apostrophe @ ''text'' @ apostrophe))
      | Some t \<Rightarrow> Inr t)"

text \<open>Iterating over a value that is \<open>None\<close> or a list.\<close>

definition iter :: "'a list option \<Rightarrow> exn + 'a list" where
  "iter v =
     (case v of
        None \<Rightarrow> Inl (Exn ''TypeError''
                 (apostrophe @ ''NoneType'' @ apostrophe @ '' object is not iterable''))
      | Some xs \<Rightarrow> Inr xs)"

text \<open>\<open>sep.join(xs)\<close> on a list of strings.\<close>

fun join :: "string \<Rightarrow> string list \<Rightarrow> string" where
  "join sep [] = []"
| "join sep [x] = x"
| "join sep (x # y # ys) = x @ sep @ join sep (y # ys)"

section \<open>\<open>process_gemini_response\<close>\<close>

text \<open>
  The loop over \<open>response.prompt_feedback.safety_ratings\<close>: it returns from the
  function at the first rating whose probability is not the string \<open>NEGLIGIBLE\<close>;
  \<open>None\<close> when the loop runs to its end. The loop is entered when
  \<open>response.prompt_feedback\<close> is truthy, that is, not \<open>None\<close>.
\<close>

fun blocked_rating :: "safety_rating list \<Rightarrow> string option" where
  "blocked_rating [] = None"
| "blocked_rating (rating # rest) =
     (if probability rating \<noteq> ''NEGLIGIBLE''
      then Some (''Content was blocked due to '' @ category rating @ '' with ''
                 @ probability rating @ '' probability.'')
      else blocked_rating rest)"

text \<open>The comprehension \<open>[part.text for part in ps if hasattr(part, 'text')]\<close>.\<close>

fun text_parts_of :: "part list \<Rightarrow> exn + string list" where
  "text_parts_of [] = Inr []"
| "text_parts_of (p # ps) =
     (if hasattr_text p
      then (case getattr_text p of
              Inl e \<Rightarrow> Inl e
            | Inr t \<Rightarrow> (case text_parts_of ps of Inl e \<Rightarrow> Inl e | Inr ts \<Rightarrow> Inr (t # ts)))
      else text_parts_of ps)"

definition blocked_or_empty :: string where
  "blocked_or_empty = ''The response was blocked or empty.''"

definition no_content :: string where
  "no_content = ''The response did not contain any content.''"

definition no_text_parts :: string where
  "no_text_parts = ''The response did not contain any text parts.''"

text \<open>
  \<open>candidate.content is None or candidate.content.parts is None\<close>: the right operand
  is evaluated only when the left one is false.
\<close>

definition content_missing :: "candidate \<Rightarrow> exn + bool" where
  "content_missing c =
     (if content c = None then Inr True
      else (case getattr_parts (content c) of Inl e \<Rightarrow> Inl e | Inr ps \<Rightarrow> Inr (ps = None)))"

definition process_gemini_response :: "response \<Rightarrow> exn + string" where
  "process_gemini_response r =
     (if py_not (candidates r) then
        (case prompt_feedback r of
           None \<Rightarrow> Inr blocked_or_empty
         | Some fb \<Rightarrow>
             (case blocked_rating (safety_ratings fb) of
                Some msg \<Rightarrow> Inr msg
              | None \<Rightarrow> Inr blocked_or_empty))
      else
        (case index0 (candidates r) of
           Inl e \<Rightarrow> Inl e
         | Inr c \<Rightarrow>
             (case content_missing c of
                Inl e \<Rightarrow> Inl e
              | Inr True \<Rightarrow> Inr no_content
              | Inr False \<Rightarrow>
                  (case getattr_parts (content c) of
                     Inl e \<Rightarrow> Inl e
                   | Inr ps \<Rightarrow>
                       (case iter ps of
                          Inl e \<Rightarrow> Inl e
                        | Inr ps' \<Rightarrow>
                            (case text_parts_of ps' of
                               Inl e \<Rightarrow> Inl e
                             | Inr text_parts \<Rightarrow>
                                 if text_parts = [] then Inr no_text_parts
                                 else Inr (join '' '' text_parts)))))))"

section \<open>\<open>input_pdf_setup\<close>\<close>

type_synonym byte = "8 word"

text \<open>
  \<open>base64.b64encode(bs).decode()\<close>: the standard alphabet of RFC 4648, three bytes to
  four characters, the last group padded with \<open>=\<close>.
\<close>

definition b64_alphabet :: string where
  "b64_alphabet = ''ABCDEFGHIJKLMNOPQRSTUVWXYZabcdefghijklmnopqrstuvwxyz0123456789+/''"

definition b64_char :: "nat \<Rightarrow> char" where
  "b64_char n = b64_alphabet ! (n mod 64)"

fun b64encode :: "byte list \<Rightarrow> string" where
  "b64encode [] = []"
| "b64encode [a] =
     (let n = unat a * 16
      in [b64_char (n div 64), b64_char n, CHR ''='', CHR ''=''])"
| "b64encode [a, b] =
     (let n = (unat a * 256 + unat b) * 4
      in [b64_char (n div 4096), b64_char (n div 64), b64_char n, CHR ''=''])"
| "b64encode (a # b # c # rest) =
     (let n = unat a * 65536 + unat b * 256 + unat c
      in [b64_char (n div 262144), b64_char (n div 4096), b64_char (n div 64), b64_char n]
         @ b64encode rest)"

text \<open>One element of the returned list: the dictionary with keys \<open>mime_type\<close> and \<open>data\<close>.\<close>

record page_image =
  mime_type :: string
  data :: string

text \<open>
  The loop over \<open>images\<close>. \<open>save_jpeg img\<close> stands for \<open>img.save(buf, format='JPEG')\<close>
  followed by \<open>buf.getvalue()\<close>: the JPEG bytes of the page, or the exception PIL raises.
\<close>

fun pdf_parts_loop ::
  "('img \<Rightarrow> exn + byte list) \<Rightarrow> page_image list \<Rightarrow> 'img list \<Rightarrow> exn + page_image list" where
  "pdf_parts_loop save_jpeg pdf_parts [] = Inr pdf_parts"
| "pdf_parts_loop save_jpeg pdf_parts (img # images) =
     (case save_jpeg img of
        Inl e \<Rightarrow> Inl e
      | Inr img_byte_arr \<Rightarrow>
          pdf_parts_loop save_jpeg
            (pdf_parts @ [\<lparr>mime_type = ''image/jpeg'', data = b64encode img_byte_arr\<rparr>])
            images)"

text \<open>
  \<open>uploaded_file\<close> is \<open>None\<close> or a file object, given by the bytes \<open>read()\<close> returns.
  \<open>convert_from_bytes\<close> is pdf2image's function: the page images in page order, or the
  exception it raises.
\<close>

definition no_file_uploaded :: exn where
  "no_file_uploaded = Exn ''FileNotFoundError'' ''No file uploaded''"

definition input_pdf_setup ::
  "(byte list \<Rightarrow> exn + 'img list) \<Rightarrow> ('img \<Rightarrow> exn + byte list) \<Rightarrow> byte list option
   \<Rightarrow> exn + page_image list" where
  "input_pdf_setup convert_from_bytes save_jpeg uploaded_file =
     (case uploaded_file of
        Some bytes \<Rightarrow>
          (case convert_from_bytes bytes of
             Inl e \<Rightarrow> Inl e
           | Inr images \<Rightarrow> pdf_parts_loop save_jpeg [] images)
      | None \<Rightarrow> Inl no_file_uploaded)"

section \<open>\<open>google_translate\<close>\<close>

text \<open>
  \<open>new_translator source target\<close> stands for \<open>GoogleTranslator(source=..., target=...)\<close>
  and \<open>translate translator text\<close> for \<open>translator.translate(text)\<close>. The remote service
  is not a function of the text alone, so the call takes the state of the service and
  returns the new one.
\<close>

definition google_translate ::
  "(string \<Rightarrow> string \<Rightarrow> exn + 'tr) \<Rightarrow> ('tr \<Rightarrow> string \<Rightarrow> 's \<Rightarrow> (exn + string) \<times> 's)
   \<Rightarrow> string \<Rightarrow> string \<Rightarrow> string \<Rightarrow> 's \<Rightarrow> (exn + string) \<times> 's" where
  "google_translate new_translator translate text source_lang target_lang s =
     (case new_translator source_lang target_lang of
        Inl e \<Rightarrow> (Inl e, s)
      | Inr translator \<Rightarrow>
          (case translate translator text s of
             (Inl e, s') \<Rightarrow> (Inl e, s')
           | (Inr translated, s') \<Rightarrow> (Inr translated, s')))"

section \<open>\<open>explain_and_summarize\<close>\<close>

text \<open>The f-string prompt, with its line breaks and indentation.\<close>

definition prompt_of :: "string \<Rightarrow> string" where
  "prompt_of text =
     newline
     @ ''    Please explain and summarize the following text in simple, easy-to-understand language. ''
     @ newline
     @ ''    Keep the summary concise but include all key points:''
     @ newline @ newline
     @ ''    '' @ text @ newline
     @ ''    ''"

text \<open>\<open>try: body except Exception as e: handler\<close>.\<close>

definition try_except :: "exn + 'a \<Rightarrow> (exn \<Rightarrow> exn + 'a) \<Rightarrow> exn + 'a" where
  "try_except body handler = (case body of Inl e \<Rightarrow> handler e | Inr v \<Rightarrow> Inr v)"

text \<open>
  \<open>generate_content\<close> is the \<open>generate_content\<close> method of the model built from the
  given name: the response, or the exception the call raises.
\<close>

definition explain_and_summarize ::
  "(string \<Rightarrow> string \<Rightarrow> exn + response) \<Rightarrow> string \<Rightarrow> exn + string" where
  "explain_and_summarize generate_content text =
     try_except
       (case generate_content ''gemini-pro'' (prompt_of text) of
          Inl e \<Rightarrow> Inl e
        | Inr response \<Rightarrow> process_gemini_response response)
       (\<lambda>e. Inr (''An error occurred while generating the explanation: '' @ str_exn e))"

section \<open>The extraction loop of the page script\<close>

definition instruction :: string where
  "instruction = ''Extract all the text from this image''"

definition page_separator :: string where
  "page_separator = newline @ newline"

text \<open>
  \<open>for part in pdf_parts\<close>: one call of the vision model per page, its response normalised
  and appended with a blank line. \<open>generate_content\<close> takes the state of the remote
  model and returns the new one; an exception leaves the loop.
\<close>

fun extract_loop ::
  "('s \<Rightarrow> string \<Rightarrow> page_image \<Rightarrow> string \<Rightarrow> (exn + response) \<times> 's) \<Rightarrow> 's \<Rightarrow> string
   \<Rightarrow> page_image list \<Rightarrow> (exn + string) \<times> 's" where
  "extract_loop generate_content s extracted_text [] = (Inr extracted_text, s)"
| "extract_loop generate_content s extracted_text (part # rest) =
     (case generate_content s ''gemini-pro-vision'' part instruction of
        (Inl e, s') \<Rightarrow> (Inl e, s')
      | (Inr response, s') \<Rightarrow>
          (case process_gemini_response response of
             Inl e \<Rightarrow> (Inl e, s')
           | Inr t \<Rightarrow>
               extract_loop generate_content s' (extracted_text @ t @ page_separator) rest))"

definition extract_text ::
  "('s \<Rightarrow> string \<Rightarrow> page_image \<Rightarrow> string \<Rightarrow> (exn + response) \<times> 's) \<Rightarrow> 's
   \<Rightarrow> page_image list \<Rightarrow> (exn + string) \<times> 's" where
  "extract_text generate_content s pdf_parts = extract_loop generate_content s [] pdf_parts"

text \<open>
  The outcomes of the successive calls of the vision model on the pages, in the order
  the loop makes them.
\<close>

fun model_replies ::
  "('s \<Rightarrow> string \<Rightarrow> page_image \<Rightarrow> string \<Rightarrow> (exn + response) \<times> 's) \<Rightarrow> 's
   \<Rightarrow> page_image list \<Rightarrow> (exn + response) list" where
  "model_replies generate_content s [] = []"
| "model_replies generate_content s (part # rest) =
     (case generate_content s ''gemini-pro-vision'' part instruction of
        (reply, s') \<Rightarrow> reply # model_replies generate_content s' rest)"

section \<open>Auxiliary facts\<close>

lemma text_parts_of_eq:
  "text_parts_of ps = Inr (map (\<lambda>p. the (part_text p)) (filter hasattr_text ps))"
  by (induction ps) (auto simp: hasattr_text_def getattr_text_def)

lemma process_no_candidates:
  "py_not (candidates r) \<Longrightarrow>
   process_gemini_response r =
     Inr (case prompt_feedback r of
            None \<Rightarrow> blocked_or_empty
          | Some fb \<Rightarrow> (case blocked_rating (safety_ratings fb) of
                         Some msg \<Rightarrow> msg | None \<Rightarrow> blocked_or_empty))"
  by (simp add: process_gemini_response_def split: option.splits)

lemma process_first_candidate:
  "candidates r = Some (c # cs) \<Longrightarrow>
   process_gemini_response r =
     Inr (case content c of
            None \<Rightarrow> no_content
          | Some ct \<Rightarrow>
              (case parts ct of
                 None \<Rightarrow> no_content
               | Some ps \<Rightarrow>
                   (let ts = map (\<lambda>p. the (part_text p)) (filter hasattr_text ps)
                    in if ts = [] then no_text_parts else join '' '' ts)))"
  by (simp add: process_gemini_response_def py_not_def index0_def content_missing_def
      getattr_parts_def iter_def text_parts_of_eq Let_def split: option.splits)

lemma py_not_cases: "\<not> py_not v \<Longrightarrow> \<exists>x xs. v = Some (x # xs)"
  by (cases v) (auto simp: py_not_def neq_Nil_conv)

lemma process_gemini_response_Inr: "\<exists>s. process_gemini_response r = Inr s"
proof (cases "py_not (candidates r)")
  case True
  then show ?thesis by (simp add: process_no_candidates)
next
  case False
  then obtain c cs where "candidates r = Some (c # cs)"
    using py_not_cases by blast
  then show ?thesis by (simp add: process_first_candidate)
qed

lemma blocked_rating_first:
  "\<exists>x \<in> set rs. probability x \<noteq> ''NEGLIGIBLE'' \<Longrightarrow>
   blocked_rating rs =
     Some (''Content was blocked due to ''
           @ category (hd (filter (\<lambda>x. probability x \<noteq> ''NEGLIGIBLE'') rs)) @ '' with ''
           @ probability (hd (filter (\<lambda>x. probability x \<noteq> ''NEGLIGIBLE'') rs))
           @ '' probability.'')"
  by (induction rs) auto

lemma pdf_parts_loop_Inl:
  "pdf_parts_loop save_jpeg acc images = Inl e \<Longrightarrow> \<exists>img \<in> set images. save_jpeg img = Inl e"
  by (induction images arbitrary: acc) (auto split: sum.splits)

lemma pdf_parts_loop_map:
  "map save_jpeg images = map Inr jpegs \<Longrightarrow>
   pdf_parts_loop save_jpeg acc images =
     Inr (acc @ map (\<lambda>j. \<lparr>mime_type = ''image/jpeg'', data = b64encode j\<rparr>) jpegs)"
proof (induction images arbitrary: acc jpegs)
  case Nil
  then show ?case by simp
next
  case (Cons img images)
  then obtain j js where "jpegs = j # js" "save_jpeg img = Inr j" "map save_jpeg images = map Inr js"
    by (cases jpegs) auto
  with Cons.IH [of js] show ?case by simp
qed

lemma extract_loop_concat:
  "model_replies generate_content s pdf_parts = map Inr responses \<Longrightarrow>
   map process_gemini_response responses = map Inr texts \<Longrightarrow>
   fst (extract_loop generate_content s acc pdf_parts)
     = Inr (acc @ concat (map (\<lambda>t. t @ page_separator) texts))"
proof (induction pdf_parts arbitrary: s acc responses texts)
  case Nil
  then show ?case by simp
next
  case (Cons part rest)
  obtain reply s' where call: "generate_content s ''gemini-pro-vision'' part instruction = (reply, s')"
    by (cases "generate_content s ''gemini-pro-vision'' part instruction")
  with Cons.prems(1) obtain response rs where
    rs: "responses = response # rs" "reply = Inr response"
        "model_replies generate_content s' rest = map Inr rs"
    by (cases responses) auto
  with Cons.prems(2) obtain t ts where
    ts: "texts = t # ts" "process_gemini_response response = Inr t"
        "map process_gemini_response rs = map Inr ts"
    by (cases texts) auto
  from Cons.IH [OF rs(3) ts(3), of "acc @ t @ page_separator"] call rs(2) ts(1,2)
  show ?case by simp
qed

section \<open>The response normaliser\<close>

text \<open>
  Claim C1, as amended. When the response has a candidate and the first candidate's
  content is \<open>None\<close>, or the content's \<open>parts\<close> is \<open>None\<close>, the result is the
  "no content" message. The test is \<open>is None\<close>, so a \<open>parts\<close> list that is present
  but empty is not caught by it: the comprehension then collects nothing and the result
  is the "no text parts" message.
\<close>

theorem no_content_diagnostic:
  "candidates r = Some (c # cs) \<Longrightarrow>
   ((content c = None \<or> (\<exists>ct. content c = Some ct \<and> parts ct = None))
      \<longrightarrow> process_gemini_response r = Inr ''The response did not contain any content.'')
   \<and> ((\<exists>ct. content c = Some ct \<and> parts ct = Some [])
      \<longrightarrow> process_gemini_response r = Inr ''The response did not contain any text parts.'')"
  by (auto simp: process_first_candidate no_content_def no_text_parts_def)

theorem no_content_diagnostic_witness:
  "process_gemini_response
     \<lparr>candidates = Some [\<lparr>content = None\<rparr>], prompt_feedback = None\<rparr>
   = Inr ''The response did not contain any content.''
   \<and> process_gemini_response
     \<lparr>candidates = Some [\<lparr>content = Some \<lparr>parts = None\<rparr>\<rparr>], prompt_feedback = None\<rparr>
   = Inr ''The response did not contain any content.''
   \<and> process_gemini_response
     \<lparr>candidates = Some [\<lparr>content = Some \<lparr>parts = Some []\<rparr>\<rparr>], prompt_feedback = None\<rparr>
   = Inr ''The response did not contain any text parts.''"
  using no_content_diagnostic
          [of "\<lparr>candidates = Some [\<lparr>content = None\<rparr>], prompt_feedback = None\<rparr>"
              "\<lparr>content = None\<rparr>" "[]"]
        no_content_diagnostic
          [of "\<lparr>candidates = Some [\<lparr>content = Some \<lparr>parts = None\<rparr>\<rparr>], prompt_feedback = None\<rparr>"
              "\<lparr>content = Some \<lparr>parts = None\<rparr>\<rparr>" "[]"]
        no_content_diagnostic
          [of "\<lparr>candidates = Some [\<lparr>content = Some \<lparr>parts = Some []\<rparr>\<rparr>], prompt_feedback = None\<rparr>"
              "\<lparr>content = Some \<lparr>parts = Some []\<rparr>\<rparr>" "[]"]
  by simp

text \<open>
  Claim C1 as written fails on a first candidate whose content has an empty \<open>parts\<close>
  list: the result there is the "no text parts" message, not the "no content" one.
\<close>

theorem empty_parts_counterexample:
  "process_gemini_response
     \<lparr>candidates = Some [\<lparr>content = Some \<lparr>parts = Some []\<rparr>\<rparr>], prompt_feedback = None\<rparr>
   = Inr ''The response did not contain any text parts.''
   \<and> process_gemini_response
     \<lparr>candidates = Some [\<lparr>content = Some \<lparr>parts = Some []\<rparr>\<rparr>], prompt_feedback = None\<rparr>
   \<noteq> Inr ''The response did not contain any content.''"
  by (simp add: process_first_candidate no_text_parts_def)

text \<open>
  Claim C2. With no candidates (\<open>None\<close> or an empty list) and a prompt feedback
  holding a rating whose probability is not \<open>NEGLIGIBLE\<close>, the result is the
  "Content was blocked" message built from the first such rating in the listed order,
  and both its category and its probability occur in the message.
\<close>

theorem blocked_diagnostic:
  assumes "candidates r = None \<or> candidates r = Some []"
    and "prompt_feedback r = Some fb"
    and "\<exists>x \<in> set (safety_ratings fb). probability x \<noteq> ''NEGLIGIBLE''"
    and "rating = hd (filter (\<lambda>x. probability x \<noteq> ''NEGLIGIBLE'') (safety_ratings fb))"
    and "msg = ''Content was blocked due to '' @ category rating @ '' with ''
               @ probability rating @ '' probability.''"
  shows "process_gemini_response r = Inr msg
         \<and> sublist (category rating) msg \<and> sublist (probability rating) msg"
proof -
  have "py_not (candidates r)"
    using assms(1) by (auto simp: py_not_def)
  then have "process_gemini_response r = Inr msg"
    using assms(2-5) by (simp add: process_no_candidates blocked_rating_first)
  moreover have "sublist (category rating) msg"
    unfolding assms(5) sublist_def by blast
  moreover have "sublist (probability rating) msg"
    unfolding assms(5) sublist_def by (metis append.assoc)
  ultimately show ?thesis by simp
qed

theorem blocked_diagnostic_witness:
  "process_gemini_response
     \<lparr>candidates = Some [],
      prompt_feedback = Some \<lparr>safety_ratings =
        [\<lparr>category = ''W'', probability = ''NEGLIGIBLE''\<rparr>,
         \<lparr>category = ''X'', probability = ''HIGH''\<rparr>,
         \<lparr>category = ''Y'', probability = ''LOW''\<rparr>]\<rparr>\<rparr>
   = Inr ''Content was blocked due to X with HIGH probability.''
   \<and> sublist ''X'' ''Content was blocked due to X with HIGH probability.''
   \<and> sublist ''HIGH'' ''Content was blocked due to X with HIGH probability.''"
  using blocked_diagnostic
          [of "\<lparr>candidates = Some [],
                prompt_feedback = Some \<lparr>safety_ratings =
                  [\<lparr>category = ''W'', probability = ''NEGLIGIBLE''\<rparr>,
                   \<lparr>category = ''X'', probability = ''HIGH''\<rparr>,
                   \<lparr>category = ''Y'', probability = ''LOW''\<rparr>]\<rparr>\<rparr>"
              "\<lparr>safety_ratings =
                  [\<lparr>category = ''W'', probability = ''NEGLIGIBLE''\<rparr>,
                   \<lparr>category = ''X'', probability = ''HIGH''\<rparr>,
                   \<lparr>category = ''Y'', probability = ''LOW''\<rparr>]\<rparr>"
              "\<lparr>category = ''X'', probability = ''HIGH''\<rparr>"
              "''Content was blocked due to X with HIGH probability.''"]
  by simp

text \<open>
  Claim C3. Whatever is absent or present in the response (candidates, content, parts,
  text attributes, prompt feedback), no subscript, attribute access or iteration of
  \<open>process_gemini_response\<close> raises: the function returns a string.
\<close>

theorem process_gemini_response_never_raises:
  "\<exists>s. process_gemini_response r = Inr s"
  by (rule process_gemini_response_Inr)

text \<open>
  Claim C8. When the first candidate's content has a part with a \<open>text\<close> attribute,
  the result is the texts of the parts that have one, in part order, joined with one
  space; the parts without it are left out.
\<close>

theorem joined_text_parts:
  assumes "candidates r = Some (c # cs)"
    and "content c = Some ct"
    and "parts ct = Some ps"
    and "\<exists>p \<in> set ps. part_text p \<noteq> None"
  shows "process_gemini_response r =
           Inr (join '' '' (map (\<lambda>p. the (part_text p)) (filter (\<lambda>p. part_text p \<noteq> None) ps)))"
proof -
  have "filter hasattr_text ps \<noteq> []"
    using assms(4) by (auto simp: filter_empty_conv hasattr_text_def)
  moreover have "filter hasattr_text ps = filter (\<lambda>p. part_text p \<noteq> None) ps"
    by (rule filter_cong) (simp_all add: hasattr_text_def)
  ultimately show ?thesis
    using assms(1-3) by (simp add: process_first_candidate)
qed

theorem joined_text_parts_witness:
  "process_gemini_response
     \<lparr>candidates = Some [\<lparr>content = Some \<lparr>parts = Some
        [\<lparr>part_text = Some ''A''\<rparr>, \<lparr>part_text = None\<rparr>, \<lparr>part_text = Some ''B''\<rparr>]\<rparr>\<rparr>],
      prompt_feedback = None\<rparr>
   = Inr ''A B''"
  using joined_text_parts
          [of "\<lparr>candidates = Some [\<lparr>content = Some \<lparr>parts = Some
                 [\<lparr>part_text = Some ''A''\<rparr>, \<lparr>part_text = None\<rparr>, \<lparr>part_text = Some ''B''\<rparr>]\<rparr>\<rparr>],
                prompt_feedback = None\<rparr>"
              "\<lparr>content = Some \<lparr>parts = Some
                 [\<lparr>part_text = Some ''A''\<rparr>, \<lparr>part_text = None\<rparr>, \<lparr>part_text = Some ''B''\<rparr>]\<rparr>\<rparr>"
              "[]"
              "\<lparr>parts = Some
                 [\<lparr>part_text = Some ''A''\<rparr>, \<lparr>part_text = None\<rparr>, \<lparr>part_text = Some ''B''\<rparr>]\<rparr>"
              "[\<lparr>part_text = Some ''A''\<rparr>, \<lparr>part_text = None\<rparr>, \<lparr>part_text = Some ''B''\<rparr>]"]
  by simp

text \<open>
  Claim C10. With a candidate present, the result is determined by the content of the
  first candidate: the prompt feedback and the later candidates are never read.
\<close>

theorem first_candidate_only:
  assumes "candidates r1 = Some (c1 # cs1)"
    and "candidates r2 = Some (c2 # cs2)"
    and "content c1 = content c2"
  shows "process_gemini_response r1 = process_gemini_response r2"
  using assms by (simp add: process_first_candidate)

theorem first_candidate_only_witness:
  "process_gemini_response
     \<lparr>candidates = Some [\<lparr>content = Some \<lparr>parts = Some [\<lparr>part_text = Some ''A''\<rparr>]\<rparr>\<rparr>],
      prompt_feedback = Some \<lparr>safety_ratings = [\<lparr>category = ''X'', probability = ''HIGH''\<rparr>]\<rparr>\<rparr>
   = process_gemini_response
     \<lparr>candidates = Some [\<lparr>content = Some \<lparr>parts = Some [\<lparr>part_text = Some ''A''\<rparr>]\<rparr>\<rparr>,
                          \<lparr>content = None\<rparr>],
      prompt_feedback = None\<rparr>
   \<and> process_gemini_response
     \<lparr>candidates = Some [\<lparr>content = Some \<lparr>parts = Some [\<lparr>part_text = Some ''A''\<rparr>]\<rparr>\<rparr>],
      prompt_feedback = Some \<lparr>safety_ratings = [\<lparr>category = ''X'', probability = ''HIGH''\<rparr>]\<rparr>\<rparr>
   = Inr ''A''"
  using first_candidate_only
          [of "\<lparr>candidates = Some [\<lparr>content = Some \<lparr>parts = Some [\<lparr>part_text = Some ''A''\<rparr>]\<rparr>\<rparr>],
                prompt_feedback = Some \<lparr>safety_ratings = [\<lparr>category = ''X'', probability = ''HIGH''\<rparr>]\<rparr>\<rparr>"
              "\<lparr>content = Some \<lparr>parts = Some [\<lparr>part_text = Some ''A''\<rparr>]\<rparr>\<rparr>" "[]"
              "\<lparr>candidates = Some [\<lparr>content = Some \<lparr>parts = Some [\<lparr>part_text = Some ''A''\<rparr>]\<rparr>\<rparr>,
                          \<lparr>content = None\<rparr>],
                prompt_feedback = None\<rparr>"
              "\<lparr>content = Some \<lparr>parts = Some [\<lparr>part_text = Some ''A''\<rparr>]\<rparr>\<rparr>"
              "[\<lparr>content = None\<rparr>]"]
  by (simp add: process_first_candidate hasattr_text_def)

section \<open>The summariser\<close>

text \<open>
  Claim C4. \<open>explain_and_summarize\<close> returns a string in every case: when
  \<open>generate_content\<close> raises an exception with message \<open>m\<close> the result is the fixed
  prefix followed by \<open>m\<close>, and when it returns a response the result is what
  \<open>process_gemini_response\<close> returns for it.
\<close>

theorem explain_and_summarize_never_raises:
  "\<exists>s. explain_and_summarize generate_content text = Inr s
     \<and> (\<forall>e. generate_content ''gemini-pro'' (prompt_of text) = Inl e
            \<longrightarrow> s = ''An error occurred while generating the explanation: '' @ exn_msg e)
     \<and> (\<forall>response. generate_content ''gemini-pro'' (prompt_of text) = Inr response
            \<longrightarrow> process_gemini_response response = Inr s)"
proof (cases "generate_content ''gemini-pro'' (prompt_of text)")
  case (Inl e)
  then show ?thesis
    by (simp add: explain_and_summarize_def try_except_def str_exn_def)
next
  case (Inr response)
  obtain s where "process_gemini_response response = Inr s"
    using process_gemini_response_Inr by blast
  with Inr show ?thesis
    by (simp add: explain_and_summarize_def try_except_def)
qed

theorem explain_and_summarize_never_raises_witness:
  "explain_and_summarize (\<lambda>name prompt. Inl (Exn ''ResourceExhausted'' ''429 Quota exceeded'')) ''Bonjour''
     = Inr ''An error occurred while generating the explanation: 429 Quota exceeded''
   \<and> explain_and_summarize
       (\<lambda>name prompt. Inr \<lparr>candidates = Some [\<lparr>content = Some \<lparr>parts = Some
          [\<lparr>part_text = Some ''A greeting.''\<rparr>]\<rparr>\<rparr>], prompt_feedback = None\<rparr>) ''Bonjour''
     = Inr ''A greeting.''"
  using explain_and_summarize_never_raises
          [of "\<lambda>name prompt. Inl (Exn ''ResourceExhausted'' ''429 Quota exceeded'')" "''Bonjour''"]
        explain_and_summarize_never_raises
          [of "\<lambda>name prompt. Inr \<lparr>candidates = Some [\<lparr>content = Some \<lparr>parts = Some
                 [\<lparr>part_text = Some ''A greeting.''\<rparr>]\<rparr>\<rparr>], prompt_feedback = None\<rparr>" "''Bonjour''"]
  by (auto simp: process_first_candidate hasattr_text_def)

section \<open>The rasteriser\<close>

text \<open>
  Claim C5, as amended. Provided the libraries do not raise that very error themselves,
  \<open>input_pdf_setup\<close> fails with \<open>FileNotFoundError("No file uploaded")\<close> exactly when
  \<open>uploaded_file\<close> is \<open>None\<close>. An upload that is present is handed to
  \<open>convert_from_bytes\<close> whatever its length, an empty one included.
\<close>

theorem no_file_uploaded_iff:
  assumes "\<forall>bytes. convert_from_bytes bytes \<noteq> Inl (Exn ''FileNotFoundError'' ''No file uploaded'')"
    and "\<forall>img. save_jpeg img \<noteq> Inl (Exn ''FileNotFoundError'' ''No file uploaded'')"
  shows "input_pdf_setup convert_from_bytes save_jpeg uploaded_file
           = Inl (Exn ''FileNotFoundError'' ''No file uploaded'')
         \<longleftrightarrow> uploaded_file = None"
proof (cases uploaded_file)
  case None
  then show ?thesis by (simp add: input_pdf_setup_def no_file_uploaded_def)
next
  case (Some bytes)
  show ?thesis
  proof (cases "convert_from_bytes bytes")
    case (Inl e)
    with Some assms(1) show ?thesis
      by (auto simp: input_pdf_setup_def)
  next
    case (Inr images)
    with Some assms(2) show ?thesis
      by (auto simp: input_pdf_setup_def dest: pdf_parts_loop_Inl)
  qed
qed

theorem no_file_uploaded_iff_witness:
  "input_pdf_setup
     (\<lambda>bytes. if bytes = [] then Inl (Exn ''PDFPageCountError'' ''Unable to get page count.'')
               else Inr [bytes])
     (\<lambda>img. Inr img) None
   = Inl (Exn ''FileNotFoundError'' ''No file uploaded'')
   \<and> input_pdf_setup
     (\<lambda>bytes. if bytes = [] then Inl (Exn ''PDFPageCountError'' ''Unable to get page count.'')
               else Inr [bytes])
     (\<lambda>img. Inr img) (Some [])
   \<noteq> Inl (Exn ''FileNotFoundError'' ''No file uploaded'')
   \<and> input_pdf_setup
     (\<lambda>bytes. if bytes = [] then Inl (Exn ''PDFPageCountError'' ''Unable to get page count.'')
               else Inr [bytes])
     (\<lambda>img. Inr img) (Some [0x25, 0x50, 0x44, 0x46])
   \<noteq> Inl (Exn ''FileNotFoundError'' ''No file uploaded'')"
  using no_file_uploaded_iff
          [of "\<lambda>bytes. if bytes = [] then Inl (Exn ''PDFPageCountError'' ''Unable to get page count.'')
                        else Inr [bytes]"
              "\<lambda>img. Inr img" None]
        no_file_uploaded_iff
          [of "\<lambda>bytes. if bytes = [] then Inl (Exn ''PDFPageCountError'' ''Unable to get page count.'')
                        else Inr [bytes]"
              "\<lambda>img. Inr img" "Some []"]
        no_file_uploaded_iff
          [of "\<lambda>bytes. if bytes = [] then Inl (Exn ''PDFPageCountError'' ''Unable to get page count.'')
                        else Inr [bytes]"
              "\<lambda>img. Inr img" "Some [0x25, 0x50, 0x44, 0x46]"]
  by simp

text \<open>
  Claim C5 as written fails on an upload that is present and empty: the test is
  \<open>is not None\<close>, the empty bytes reach the library, and the error is the library's.
\<close>

theorem empty_upload_counterexample:
  "input_pdf_setup
     (\<lambda>bytes. if bytes = [] then Inl (Exn ''PDFPageCountError'' ''Unable to get page count.'')
               else Inr [bytes])
     (\<lambda>img. Inr img) (Some [])
   = Inl (Exn ''PDFPageCountError'' ''Unable to get page count.'')
   \<and> input_pdf_setup
     (\<lambda>bytes. if bytes = [] then Inl (Exn ''PDFPageCountError'' ''Unable to get page count.'')
               else Inr [bytes])
     (\<lambda>img. Inr img) (Some [])
   \<noteq> Inl (Exn ''FileNotFoundError'' ''No file uploaded'')"
  by (simp add: input_pdf_setup_def)

text \<open>
  Claim C6. When the library yields the page images and each is saved as JPEG, the
  result has one record per page, in the library's order, each with MIME type
  \<open>image/jpeg\<close> and the base64 text of that page's JPEG bytes.
\<close>

theorem input_pdf_setup_pages:
  assumes "convert_from_bytes bytes = Inr images"
    and "map save_jpeg images = map Inr jpegs"
  shows "input_pdf_setup convert_from_bytes save_jpeg (Some bytes)
           = Inr (map (\<lambda>j. \<lparr>mime_type = ''image/jpeg'', data = b64encode j\<rparr>) jpegs)
         \<and> length jpegs = length images"
proof -
  have "length (map save_jpeg images) = length (map Inr jpegs :: (exn + byte list) list)"
    using assms(2) by simp
  then have "length jpegs = length images" by simp
  then show ?thesis
    using assms by (simp add: input_pdf_setup_def pdf_parts_loop_map)
qed

theorem input_pdf_setup_pages_witness:
  "input_pdf_setup (\<lambda>bytes. Inr [1::nat, 2]) (\<lambda>img. Inr (if img = 1 then [0x4d, 0x61, 0x6e] else [0x4d]))
     (Some [0x25, 0x50, 0x44, 0x46])
   = Inr [\<lparr>mime_type = ''image/jpeg'', data = ''TWFu''\<rparr>,
          \<lparr>mime_type = ''image/jpeg'', data = ''TQ==''\<rparr>]"
  using input_pdf_setup_pages
          [of "\<lambda>bytes. Inr [1::nat, 2]" "[0x25, 0x50, 0x44, 0x46]" "[1, 2]"
              "\<lambda>img. Inr (if img = 1 then [0x4d, 0x61, 0x6e] else [0x4d])"
              "[[0x4d, 0x61, 0x6e], [0x4d]]"]
  by (simp add: b64_char_def b64_alphabet_def)

section \<open>The extraction loop and the translator\<close>

text \<open>
  Claim C7. When the vision model answers every page, the extracted text is the
  normalised answer of each page followed by a blank line, in page order, the last page
  included.
\<close>

theorem extracted_text_concat:
  assumes "model_replies generate_content s pdf_parts = map Inr responses"
    and "map process_gemini_response responses = map Inr texts"
  shows "fst (extract_text generate_content s pdf_parts)
           = Inr (concat (map (\<lambda>t. t @ [CHR 0x0A, CHR 0x0A]) texts))
         \<and> length texts = length pdf_parts"
proof -
  have "length (map Inr responses :: (exn + response) list) = length pdf_parts"
    using assms(1) [symmetric]
    by (induction pdf_parts arbitrary: s responses) (auto split: prod.splits)
  moreover have "length (map Inr texts :: (exn + string) list) = length (map process_gemini_response responses)"
    using assms(2) by simp
  ultimately have "length texts = length pdf_parts" by simp
  then show ?thesis
    using extract_loop_concat [OF assms, of "[]"]
    by (simp add: extract_text_def page_separator_def newline_def)
qed

theorem extracted_text_concat_witness:
  "fst (extract_text
          (\<lambda>n name part instr.
             (Inr \<lparr>candidates = Some [\<lparr>content = Some \<lparr>parts = Some
                     [\<lparr>part_text = Some (if n = (0::nat) then ''Page1'' else ''Page2'')\<rparr>]\<rparr>\<rparr>],
                   prompt_feedback = None\<rparr>, Suc n))
          0
          [\<lparr>mime_type = ''image/jpeg'', data = ''TWFu''\<rparr>,
           \<lparr>mime_type = ''image/jpeg'', data = ''TWFu''\<rparr>])
   = Inr (''Page1'' @ [CHR 0x0A, CHR 0x0A] @ ''Page2'' @ [CHR 0x0A, CHR 0x0A])"
  using extracted_text_concat
          [of "\<lambda>n name part instr.
                 (Inr \<lparr>candidates = Some [\<lparr>content = Some \<lparr>parts = Some
                         [\<lparr>part_text = Some (if n = (0::nat) then ''Page1'' else ''Page2'')\<rparr>]\<rparr>\<rparr>],
                       prompt_feedback = None\<rparr>, Suc n)"
              0
              "[\<lparr>mime_type = ''image/jpeg'', data = ''TWFu''\<rparr>,
                \<lparr>mime_type = ''image/jpeg'', data = ''TWFu''\<rparr>]"
              "[\<lparr>candidates = Some [\<lparr>content = Some \<lparr>parts = Some
                         [\<lparr>part_text = Some ''Page1''\<rparr>]\<rparr>\<rparr>], prompt_feedback = None\<rparr>,
                \<lparr>candidates = Some [\<lparr>content = Some \<lparr>parts = Some
                         [\<lparr>part_text = Some ''Page2''\<rparr>]\<rparr>\<rparr>], prompt_feedback = None\<rparr>]"
              "[''Page1'', ''Page2'']"]
  by (simp add: process_first_candidate hasattr_text_def)

text \<open>
  Claim C9. \<open>google_translate\<close> returns what the translator built for the two
  language codes returns for the text, and leaves the service in the state that one call
  left it in: nothing is changed and nothing is answered from a cache.
\<close>

theorem google_translate_pass_through:
  assumes "new_translator source_lang target_lang = Inr translator"
  shows "google_translate new_translator translate text source_lang target_lang s
           = translate translator text s"
  using assms by (simp add: google_translate_def split: prod.splits sum.splits)

theorem google_translate_pass_through_witness:
  "google_translate
     (\<lambda>source target. Inr (source, target))
     (\<lambda>translator text calls.
        (if translator = (''en'', ''fr'') \<and> text = ''hello'' then Inr ''bonjour''
         else Inl (Exn ''TranslationNotFound'' text), Suc calls))
     ''hello'' ''en'' ''fr'' (0::nat)
   = (Inr ''bonjour'', 1)
   \<and> google_translate
     (\<lambda>source target. Inr (source, target))
     (\<lambda>translator text calls.
        (if translator = (''en'', ''fr'') \<and> text = ''hello'' then Inr ''bonjour''
         else Inl (Exn ''TranslationNotFound'' text), Suc calls))
     ''hello'' ''en'' ''fr'' (1::nat)
   = (Inr ''bonjour'', 2)"
  using google_translate_pass_through
          [of "\<lambda>source target. Inr (source, target)" "''en''" "''fr''" "(''en'', ''fr'')"
              "\<lambda>translator text calls.
                 (if translator = (''en'', ''fr'') \<and> text = ''hello'' then Inr ''bonjour''
                  else Inl (Exn ''TranslationNotFound'' text), Suc calls)"
              "''hello''" "0::nat"]
        google_translate_pass_through
          [of "\<lambda>source target. Inr (source, target)" "''en''" "''fr''" "(''en'', ''fr'')"
              "\<lambda>translator text calls.
                 (if translator = (''en'', ''fr'') \<and> text = ''hello'' then Inr ''bonjour''
                  else Inl (Exn ''TranslationNotFound'' text), Suc calls)"
              "''hello''" "1::nat"]
  by simp

end
